theory Spec2Isabelle
  imports Main "HOL-Library.Word"
begin

unbundle bit_operations_syntax

section \<open>Exceptions\<close>

text \<open>
  Every exception the modelled code can raise is a value. The classes of
  \<^verbatim>\<open>app/core/exceptions.py\<close> keep their names and carry their message; the builtin and
  library exceptions (\<^verbatim>\<open>ValueError\<close>, \<^verbatim>\<open>TypeError\<close>, \<^verbatim>\<open>IndexError\<close>,
  \<^verbatim>\<open>UnicodeDecodeError\<close>, SQLAlchemy's \<^verbatim>\<open>MultipleResultsFound\<close> and \<^verbatim>\<open>IntegrityError\<close>,
  pydantic's validation error) are constructors of the same type. The message of an
  exception raised inside a library is abbreviated; the messages written in this
  repository are verbatim.
\<close>

datatype error =
    ValueError string
  | TypeError string
  | IndexError
  | UnicodeDecodeError
  | MultipleResultsFound
  | IntegrityError
  | PydanticValidationError
  | AuthManagerError string string
  | KeycloakError string nat
  | InvalidStateTokenError string
  | TokenNotFoundError string
  | UnauthorizedError string
  | TokenNotActiveError string
  | ValidationError string
  | InvalidRequestError string

text \<open>The \<^verbatim>\<open>code\<close> attribute each \<^verbatim>\<open>AuthManagerError\<close> subclass sets in its constructor;
  \<open>None\<close> for exceptions that are not an \<^verbatim>\<open>AuthManagerError\<close>.\<close>

fun code :: "error \<Rightarrow> string option" where
  "code (AuthManagerError m c) = Some c"
| "code (KeycloakError m s) = Some ''keycloak_error''"
| "code (InvalidStateTokenError m) = Some ''invalid_state_token''"
| "code (TokenNotFoundError m) = Some ''token_not_found''"
| "code (UnauthorizedError m) = Some ''unauthorized''"
| "code (TokenNotActiveError m) = Some ''token_not_active''"
| "code (ValidationError m) = Some ''validation_error''"
| "code (InvalidRequestError m) = Some ''invalid_request''"
| "code _ = None"

text \<open>\<^verbatim>\<open>str(e)\<close> of an exception: its message.\<close>

fun str_error :: "error \<Rightarrow> string" where
  "str_error (ValueError m) = m"
| "str_error (TypeError m) = m"
| "str_error IndexError = ''index out of range''"
| "str_error UnicodeDecodeError = ''invalid utf-8''"
| "str_error MultipleResultsFound = ''Multiple rows were found when one or none was required''"
| "str_error IntegrityError = ''duplicate key value violates unique constraint''"
| "str_error PydanticValidationError = ''validation error''"
| "str_error (AuthManagerError m c) = m"
| "str_error (KeycloakError m s) = m"
| "str_error (InvalidStateTokenError m) = m"
| "str_error (TokenNotFoundError m) = m"
| "str_error (UnauthorizedError m) = m"
| "str_error (TokenNotActiveError m) = m"
| "str_error (ValidationError m) = m"
| "str_error (InvalidRequestError m) = m"

section \<open>Bytes, hexadecimal text and UTF-8\<close>

type_synonym byte = "8 word"
type_synonym bytes = "byte list"

text \<open>
  A Python \<^verbatim>\<open>str\<close> is modelled by a \<^typ>\<open>string\<close> holding its UTF-8 code units, so
  \<^verbatim>\<open>s.encode()\<close> reads the units as bytes and \<^verbatim>\<open>b.decode()\<close> succeeds exactly on
  well-formed UTF-8 (the table of RFC 3629, which the strict codec implements).
\<close>

definition encode :: "string \<Rightarrow> bytes" where
  "encode s = map (\<lambda>c. of_nat (of_char c)) s"

definition continuation :: "nat \<Rightarrow> bool" where
  "continuation b = (128 \<le> b \<and> b \<le> 191)"

fun utf8_valid :: "nat list \<Rightarrow> bool" where
  "utf8_valid [] = True"
| "utf8_valid (a # bs) =
     (if a < 128 then utf8_valid bs
      else if 194 \<le> a \<and> a \<le> 223 then
        1 \<le> length bs \<and> continuation (bs ! 0) \<and> utf8_valid (drop 1 bs)
      else if 224 \<le> a \<and> a \<le> 239 then
        2 \<le> length bs \<and> continuation (bs ! 0) \<and> continuation (bs ! 1)
        \<and> (a = 224 \<longrightarrow> 160 \<le> bs ! 0) \<and> (a = 237 \<longrightarrow> bs ! 0 \<le> 159)
        \<and> utf8_valid (drop 2 bs)
      else if 240 \<le> a \<and> a \<le> 244 then
        3 \<le> length bs \<and> continuation (bs ! 0) \<and> continuation (bs ! 1)
        \<and> continuation (bs ! 2)
        \<and> (a = 240 \<longrightarrow> 144 \<le> bs ! 0) \<and> (a = 244 \<longrightarrow> bs ! 0 \<le> 143)
        \<and> utf8_valid (drop 3 bs)
      else False)"

definition decode :: "bytes \<Rightarrow> error + string" where
  "decode b =
     (if utf8_valid (map unat b) then Inr (map (\<lambda>x. char_of (unat x)) b)
      else Inl UnicodeDecodeError)"

text \<open>A \<^typ>\<open>string\<close> that stands for a Python \<^verbatim>\<open>str\<close>: its units are well-formed UTF-8.\<close>

definition is_str :: "string \<Rightarrow> bool" where
  "is_str s = utf8_valid (map of_char s)"

text \<open>\<^verbatim>\<open>bytes.hex()\<close>: two lowercase hexadecimal digits for each byte.\<close>

definition hexdigit :: "nat \<Rightarrow> char" where
  "hexdigit n = char_of (if n < 10 then 48 + n else 87 + n)"

definition hex :: "bytes \<Rightarrow> string" where
  "hex b = concat (map (\<lambda>x. [hexdigit (unat x div 16), hexdigit (unat x mod 16)]) b)"

text \<open>
  \<^verbatim>\<open>bytes.fromhex(s)\<close>: ASCII whitespace is skipped before each pair of digits, both
  cases of the letters are accepted, anything else is a \<^verbatim>\<open>ValueError\<close>.
\<close>

definition digitvalue :: "char \<Rightarrow> nat option" where
  "digitvalue c =
     (let n = (of_char c :: nat) in
      if 48 \<le> n \<and> n \<le> 57 then Some (n - 48)
      else if 97 \<le> n \<and> n \<le> 102 then Some (n - 87)
      else if 65 \<le> n \<and> n \<le> 70 then Some (n - 55)
      else None)"

definition Py_ISSPACE :: "char \<Rightarrow> bool" where
  "Py_ISSPACE c = ((of_char c :: nat) \<in> {9, 10, 11, 12, 13, 32})"

fun fromhex :: "string \<Rightarrow> error + bytes" where
  "fromhex [] = Inr []"
| "fromhex [c] =
     (if Py_ISSPACE c then Inr []
      else Inl (ValueError ''non-hexadecimal number found in fromhex() arg''))"
| "fromhex (c # d # cs) =
     (if Py_ISSPACE c then fromhex (d # cs)
      else (case (digitvalue c, digitvalue d) of
              (Some h, Some l) \<Rightarrow>
                (case fromhex cs of
                   Inl e \<Rightarrow> Inl e
                 | Inr b \<Rightarrow> Inr (of_nat (16 * h + l) # b))
            | _ \<Rightarrow> Inl (ValueError ''non-hexadecimal number found in fromhex() arg'')))"

section \<open>The cipher library\<close>

text \<open>
  The block cipher and the digest come from the \<^verbatim>\<open>cryptography\<close> and \<^verbatim>\<open>hashlib\<close>
  packages, which are not part of the repository: they are parameters of the model.
  \<open>aes_encrypt k b\<close> is AES on the single block \<open>b\<close> under the key \<open>k\<close>.
\<close>

record primitives =
  aes_encrypt :: "bytes \<Rightarrow> bytes \<Rightarrow> bytes"
  aes_decrypt :: "bytes \<Rightarrow> bytes \<Rightarrow> bytes"
  sha256 :: "bytes \<Rightarrow> bytes"

definition xor_bytes :: "bytes \<Rightarrow> bytes \<Rightarrow> bytes" where
  "xor_bytes a b = map2 (XOR) a b"

function chunks :: "nat \<Rightarrow> 'a list \<Rightarrow> 'a list list" where
  "chunks n xs = (if n = 0 \<or> xs = [] then [] else take n xs # chunks n (drop n xs))"
  by pat_completeness auto
termination
  by (relation "measure (\<lambda>(n, xs). length xs)") auto

declare chunks.simps [simp del]

text \<open>Cipher block chaining: each plaintext block is mixed with the previous ciphertext
  block (the IV for the first) before the block cipher is applied.\<close>

fun cbc_enc :: "(bytes \<Rightarrow> bytes) \<Rightarrow> bytes \<Rightarrow> bytes list \<Rightarrow> bytes list" where
  "cbc_enc E prev [] = []"
| "cbc_enc E prev (b # bs) = (let c = E (xor_bytes b prev) in c # cbc_enc E c bs)"

fun cbc_dec :: "(bytes \<Rightarrow> bytes) \<Rightarrow> bytes \<Rightarrow> bytes list \<Rightarrow> bytes list" where
  "cbc_dec D prev [] = []"
| "cbc_dec D prev (c # cs) = xor_bytes (D c) prev # cbc_dec D c cs"

text \<open>
  \<^verbatim>\<open>Cipher(algorithms.AES(key), modes.CBC(iv))\<close> followed by \<^verbatim>\<open>update(data) + finalize()\<close>:
  the key must have an AES key length, the IV the block length, and \<^verbatim>\<open>finalize\<close>
  refuses data that is not a whole number of blocks.
\<close>

definition cipher_encrypt :: "primitives \<Rightarrow> bytes \<Rightarrow> bytes \<Rightarrow> bytes \<Rightarrow> error + bytes" where
  "cipher_encrypt P k iv_bytes data =
     (if length k \<notin> {16, 24, 32} then Inl (ValueError ''Invalid key size for AES'')
      else if length iv_bytes \<noteq> 16 then Inl (ValueError ''Invalid IV size for CBC'')
      else if length data mod 16 \<noteq> 0 then
        Inl (ValueError ''The length of the provided data is not a multiple of the block length'')
      else Inr (concat (cbc_enc (aes_encrypt P k) iv_bytes (chunks 16 data))))"

definition cipher_decrypt :: "primitives \<Rightarrow> bytes \<Rightarrow> bytes \<Rightarrow> bytes \<Rightarrow> error + bytes" where
  "cipher_decrypt P k iv_bytes data =
     (if length k \<notin> {16, 24, 32} then Inl (ValueError ''Invalid key size for AES'')
      else if length iv_bytes \<noteq> 16 then Inl (ValueError ''Invalid IV size for CBC'')
      else if length data mod 16 \<noteq> 0 then
        Inl (ValueError ''The length of the provided data is not a multiple of the block length'')
      else Inr (concat (cbc_dec (aes_decrypt P k) iv_bytes (chunks 16 data))))"

section \<open>EncryptionService (app/services/encryption.py)\<close>

record EncryptionService =
  key :: bytes

text \<open>\<^verbatim>\<open>_pad\<close>: PKCS7 padding to a multiple of 16 bytes.\<close>

definition pad :: "bytes \<Rightarrow> bytes" where
  "pad data =
     (let padding_length = 16 - (length data mod 16)
      in data @ replicate padding_length (of_nat padding_length))"

text \<open>
  The verification loop of \<^verbatim>\<open>_unpad\<close>, over the values of \<^verbatim>\<open>range(padding_length)\<close>.
  \<^verbatim>\<open>data[-(i + 1)]\<close> raises \<^verbatim>\<open>IndexError\<close> when \<open>i + 1\<close> exceeds the length.
\<close>

fun unpad_loop :: "bytes \<Rightarrow> nat \<Rightarrow> nat list \<Rightarrow> error option" where
  "unpad_loop data padding_length [] = None"
| "unpad_loop data padding_length (i # is) =
     (if length data < i + 1 then Some IndexError
      else if unat (data ! (length data - (i + 1))) \<noteq> padding_length then
        Some (ValueError ''Invalid padding bytes'')
      else unpad_loop data padding_length is)"

definition unpad :: "bytes \<Rightarrow> error + bytes" where
  "unpad data =
     (if length data = 0 then Inl (ValueError ''Cannot unpad empty data'')
      else
        (let padding_length = unat (last data) in
         if padding_length > 16 \<or> padding_length = 0 then
           Inl (ValueError ''Invalid padding length'')
         else
           (case unpad_loop data padding_length [0..<padding_length] of
              Some e \<Rightarrow> Inl e
            | None \<Rightarrow> Inr (take (length data - padding_length) data))))"

definition encrypt_token ::
  "primitives \<Rightarrow> EncryptionService \<Rightarrow> string \<Rightarrow> string \<Rightarrow> error + string" where
  "encrypt_token P self token iv =
     (case fromhex iv of
        Inl e \<Rightarrow> Inl (ValueError (''IV must be valid hex string: '' @ str_error e))
      | Inr iv_bytes \<Rightarrow>
          if length iv_bytes \<noteq> 16 then
            Inl (ValueError ''IV must be 16 bytes (32 hex characters)'')
          else
            (case cipher_encrypt P (key self) iv_bytes (pad (encode token)) of
               Inl e \<Rightarrow> Inl e
             | Inr encrypted \<Rightarrow> Inr (hex encrypted)))"

text \<open>In \<^verbatim>\<open>decrypt_token\<close> one \<^verbatim>\<open>try\<close> covers both \<^verbatim>\<open>fromhex\<close> calls, the IV first.\<close>

definition decrypt_token ::
  "primitives \<Rightarrow> EncryptionService \<Rightarrow> string \<Rightarrow> string \<Rightarrow> error + string" where
  "decrypt_token P self encrypted_token iv =
     (case fromhex iv of
        Inl e \<Rightarrow>
          Inl (ValueError (''Encrypted token and IV must be valid hex strings: '' @ str_error e))
      | Inr iv_bytes \<Rightarrow>
          (case fromhex encrypted_token of
             Inl e \<Rightarrow>
               Inl (ValueError
                 (''Encrypted token and IV must be valid hex strings: '' @ str_error e))
           | Inr encrypted_bytes \<Rightarrow>
               if length iv_bytes \<noteq> 16 then
                 Inl (ValueError ''IV must be 16 bytes (32 hex characters)'')
               else
                 (case cipher_decrypt P (key self) iv_bytes encrypted_bytes of
                    Inl e \<Rightarrow> Inl e
                  | Inr decrypted \<Rightarrow>
                      (case unpad decrypted of
                         Inl e \<Rightarrow> Inl e
                       | Inr plain \<Rightarrow> decode plain))))"

definition hash_token :: "primitives \<Rightarrow> string \<Rightarrow> string" where
  "hash_token P token = hex (sha256 P (encode token))"

section \<open>The vault table (app/db/models.py, app/models/domain.py)\<close>

datatype TokenType = OFFLINE | REFRESH

text \<open>A UUID is kept in its canonical text form, so \<^verbatim>\<open>str(id)\<close> is the identity.\<close>

type_synonym uuid = string

datatype json = JNull | JBool bool | JInt int | JString string

text \<open>
  One row of \<^verbatim>\<open>auth_vault\<close>. The domain model \<^verbatim>\<open>TokenVaultEntry\<close> has the same fields and
  is filled from the row attribute by attribute, so one record serves for both. The
  primary key is \<open>id'\<close> (\<^verbatim>\<open>id\<close> in the source). Timestamps are seconds as integers.
  The object-relational mapper is taken at its word: a keyword passed to the row's
  constructor or to \<^verbatim>\<open>values\<close> is stored in the column of that name and read back from it.
\<close>

record AuthVault =
  id' :: uuid
  user_id :: uuid
  token_type :: TokenType
  encrypted_token :: "string option"
  iv :: "string option"
  token_hash :: "string option"
  metadata :: "(string \<times> json) list option"
  session_state_id :: string
  created_at :: int
  updated_at :: "int option"

text \<open>
  What the environment supplies during one write: the output of
  \<^verbatim>\<open>secrets.token_hex(16)\<close>, the \<^verbatim>\<open>uuid.uuid4()\<close> default of the primary key and the
  server's \<^verbatim>\<open>now()\<close>.
\<close>

record fresh =
  token_hex :: string
  uuid4 :: uuid
  now :: int

section \<open>TokenVaultRepository (app/db/repositories/token_vault.py)\<close>

text \<open>
  The table is the list of its rows. \<^verbatim>\<open>scalar_one_or_none\<close> returns the only row of a
  result, \<^verbatim>\<open>None\<close> for an empty result, and raises \<^verbatim>\<open>MultipleResultsFound\<close> otherwise.
  An operation that raises leaves no new table: the session is rolled back.
\<close>

definition scalar_one_or_none :: "'a list \<Rightarrow> error + 'a option" where
  "scalar_one_or_none result =
     (case result of
        [] \<Rightarrow> Inr None
      | [entry] \<Rightarrow> Inr (Some entry)
      | _ \<Rightarrow> Inl MultipleResultsFound)"

definition create ::
  "AuthVault list \<Rightarrow> fresh \<Rightarrow> uuid \<Rightarrow> TokenType \<Rightarrow> string \<Rightarrow> string \<Rightarrow> string \<Rightarrow> string
   \<Rightarrow> (string \<times> json) list option \<Rightarrow> error + (AuthVault \<times> AuthVault list)" where
  "create rows env user_id' token_type' encrypted_token' iv' token_hash' session_state_id'
     metadata' =
     (let entry = \<lparr>id' = uuid4 env, user_id = user_id', token_type = token_type',
                    encrypted_token = Some encrypted_token', iv = Some iv',
                    token_hash = Some token_hash', metadata = metadata',
                    session_state_id = session_state_id', created_at = now env,
                    updated_at = None\<rparr>
      in if uuid4 env \<in> set (map id' rows) then Inl IntegrityError
         else Inr (entry, rows @ [entry]))"


definition get_by_user_id ::
  "AuthVault list \<Rightarrow> uuid \<Rightarrow> TokenType option \<Rightarrow> error + AuthVault option" where
  "get_by_user_id rows user_id' token_type' =
     (let query = filter (\<lambda>r. user_id r = user_id') rows;
          query = (case token_type' of
                     None \<Rightarrow> query
                   | Some t \<Rightarrow> filter (\<lambda>r. token_type r = t) query);
          query = sort_key (\<lambda>r. - created_at r) query
      in scalar_one_or_none query)"



section \<open>TokenVaultService (app/services/token_vault.py)\<close>

text \<open>Python's truth value of an \<^verbatim>\<open>Optional[str]\<close>: \<^verbatim>\<open>None\<close> and the empty string are false.\<close>

definition truthy :: "string option \<Rightarrow> bool" where
  "truthy v = (case v of None \<Rightarrow> False | Some s \<Rightarrow> s \<noteq> [])"

definition store_token ::
  "primitives \<Rightarrow> EncryptionService \<Rightarrow> AuthVault list \<Rightarrow> fresh \<Rightarrow> uuid \<Rightarrow> string
   \<Rightarrow> TokenType \<Rightarrow> string \<Rightarrow> (string \<times> json) list option
   \<Rightarrow> error + (AuthVault \<times> AuthVault list)" where
  "store_token P encryption rows env user_id' token token_type' session_state_id' metadata' =
     (let iv' = token_hex env in
      case encrypt_token P encryption token iv' of
        Inl e \<Rightarrow> Inl e
      | Inr encrypted_token' \<Rightarrow>
          create rows env user_id' token_type' encrypted_token' iv' (hash_token P token)
            session_state_id' metadata')"



text \<open>The common tail of \<^verbatim>\<open>get_by_session_state\<close> and \<^verbatim>\<open>get_by_user_id\<close>:
  \<^verbatim>\<open>if not entry or not entry.encrypted_token or not entry.iv: return None\<close>, then decrypt.\<close>

definition decrypt_entry ::
  "primitives \<Rightarrow> EncryptionService \<Rightarrow> AuthVault option
   \<Rightarrow> error + (AuthVault \<times> string) option" where
  "decrypt_entry P encryption found =
     (case found of
        None \<Rightarrow> Inr None
      | Some entry \<Rightarrow>
          if \<not> truthy (encrypted_token entry) \<or> \<not> truthy (iv entry) then Inr None
          else
            (case decrypt_token P encryption (the (encrypted_token entry)) (the (iv entry)) of
               Inl e \<Rightarrow> Inl e
             | Inr decrypted_token \<Rightarrow> Inr (Some (entry, decrypted_token))))"


definition get_by_user_id_svc ::
  "primitives \<Rightarrow> EncryptionService \<Rightarrow> AuthVault list \<Rightarrow> uuid \<Rightarrow> TokenType option
   \<Rightarrow> error + (AuthVault \<times> string) option" where
  "get_by_user_id_svc P encryption rows user_id' token_type' =
     (case get_by_user_id rows user_id' token_type' of
        Inl e \<Rightarrow> Inl e
      | Inr entry \<Rightarrow> decrypt_entry P encryption entry)"

section \<open>StateTokenService (app/services/state_token.py)\<close>

text \<open>
  \<^verbatim>\<open>jwt.decode\<close> belongs to the PyJWT package and reads the clock: it is a parameter,
  taking the current time, the token and the key. It raises \<^verbatim>\<open>ExpiredSignatureError\<close>
  when the time is past the token's \<^verbatim>\<open>exp\<close>, another \<^verbatim>\<open>InvalidTokenError\<close> for a bad
  signature or a malformed token, and returns the payload dictionary otherwise.
\<close>

datatype jwt_error = ExpiredSignatureError | InvalidTokenError string

type_synonym jwt_decode = "int \<Rightarrow> string \<Rightarrow> string \<Rightarrow> jwt_error + (string \<rightharpoonup> json)"

datatype StateTokenPayload =
  StateTokenPayload (payload_user_id: string) (payload_session_state_id: string)

text \<open>\<^verbatim>\<open>str(KeyError(k))\<close> is the key between single quotes.\<close>

definition str_KeyError :: "string \<Rightarrow> string" where
  "str_KeyError k = [CHR 0x27] @ k @ [CHR 0x27]"

text \<open>
  Both subscripts are evaluated before the model is built, so a missing key wins over a
  field of the wrong type; pydantic's error for a field that is not a string is caught
  by none of the three handlers.
\<close>

definition parse_state_token ::
  "jwt_decode \<Rightarrow> string \<Rightarrow> int \<Rightarrow> string \<Rightarrow> error + StateTokenPayload" where
  "parse_state_token decode_jwt secret_key time token =
     (case decode_jwt time token secret_key of
        Inl ExpiredSignatureError \<Rightarrow> Inl (InvalidStateTokenError ''State token has expired'')
      | Inl (InvalidTokenError m) \<Rightarrow>
          Inl (InvalidStateTokenError (''Invalid state token: '' @ m))
      | Inr payload \<Rightarrow>
          (case payload ''user_id'' of
             None \<Rightarrow>
               Inl (InvalidStateTokenError
                 (''Missing required field in state token: '' @ str_KeyError ''user_id''))
           | Some u \<Rightarrow>
               (case payload ''session_state_id'' of
                  None \<Rightarrow>
                    Inl (InvalidStateTokenError
                      (''Missing required field in state token: ''
                       @ str_KeyError ''session_state_id''))
                | Some s \<Rightarrow>
                    (case (u, s) of
                       (JString user_id', JString session_state_id') \<Rightarrow>
                         Inr (StateTokenPayload user_id' session_state_id')
                     | _ \<Rightarrow> Inl PydanticValidationError))))"

section \<open>Guards (app/core/guards.py)\<close>

definition guard_not_none :: "'a option \<Rightarrow> string \<Rightarrow> error + 'a" where
  "guard_not_none value error_message =
     (case value of
        None \<Rightarrow> Inl (ValidationError error_message)
      | Some v \<Rightarrow> Inr v)"


text \<open>
  \<^verbatim>\<open>guard_not_none(value, error_message)\<close> has two parameters. Three call sites pass a
  third positional argument (an error code). Python binds the arguments before the body
  runs, so such a call raises \<^verbatim>\<open>TypeError\<close> whatever the value is.
\<close>

definition guard_not_none_3 :: "'a option \<Rightarrow> string \<Rightarrow> string \<Rightarrow> error + 'a" where
  "guard_not_none_3 value error_message error_code =
     Inl (TypeError ''guard_not_none() takes 2 positional arguments but 3 were given'')"

section \<open>The OAuth provider and the other collaborators of the endpoints\<close>

text \<open>
  The two response models of \<^verbatim>\<open>app/models/domain.py\<close>. Of \<^verbatim>\<open>TokenIntrospection\<close> only the
  claims that an endpoint reads are kept (\<^verbatim>\<open>exp\<close>, \<^verbatim>\<open>iat\<close>, \<^verbatim>\<open>client_id\<close>, \<^verbatim>\<open>username\<close> and
  \<^verbatim>\<open>scope\<close> are read nowhere). In \<^verbatim>\<open>KeycloakTokenResponse\<close> the fields \<^verbatim>\<open>token_type\<close> and
  \<^verbatim>\<open>session_state\<close> carry a prime, their names being taken.
\<close>

record TokenIntrospection =
  active :: bool
  sub :: "string option"
  session_state :: "string option"

record KeycloakTokenResponse =
  access_token :: string
  refresh_token :: "string option"
  expires_in :: int
  refresh_expires_in :: "int option"
  token_type' :: string
  id_token :: "string option"
  scope :: "string option"
  session_state' :: string

text \<open>
  \<^verbatim>\<open>KeycloakService\<close> wraps HTTP calls to the provider; each method either raises
  (\<^verbatim>\<open>KeycloakError\<close> for a status other than 200) or returns the parsed response. The
  provider is outside the repository, so the methods are parameters.
\<close>

record KeycloakService =
  introspect_token :: "string \<Rightarrow> error + TokenIntrospection"
  refresh_access_token :: "string \<Rightarrow> error + KeycloakTokenResponse"
  request_offline_token :: "string \<Rightarrow> error + KeycloakTokenResponse"
  exchange_code_for_token :: "string \<Rightarrow> string \<Rightarrow> error + KeycloakTokenResponse"
  redirect_uri :: string

text \<open>
  What an endpoint is injected with: the provider client, the cipher library and the
  encryption key, the state-token secret with the JWT decoder and the clock it reads, and
  the \<^verbatim>\<open>UUID\<close> constructor of the standard library (\<^verbatim>\<open>ValueError\<close> on malformed text).
\<close>

record services =
  keycloak :: KeycloakService
  prims :: primitives
  encryption :: EncryptionService
  decode_jwt :: jwt_decode
  secret_key :: string
  clock :: int
  UUID :: "string \<Rightarrow> error + uuid"

text \<open>The calls an endpoint makes to its collaborators, in order.\<close>

datatype event =
    Introspect string
  | ParseState string
  | ExchangeCode string string
  | RefreshAccessToken string
  | RequestOfflineToken string
  | VaultGetByUser uuid "TokenType option"
  | VaultGetBySession string "TokenType option"
  | VaultStore uuid TokenType
  | VaultUpsert uuid

definition json_of :: "string option \<Rightarrow> json" where
  "json_of v = (case v of None \<Rightarrow> JNull | Some s \<Rightarrow> JString s)"

section \<open>Refresh rotation (app/api/v1/auth_manager/refresh_token_id.py)\<close>


section \<open>Offline callback (app/api/v1/auth_manager/offline_token.py)\<close>

text \<open>The response \<^verbatim>\<open>OfflineTokenResponse(persistent_token_id, session_state_id)\<close> is a pair.\<close>

definition offline_token_callback ::
  "services \<Rightarrow> fresh \<Rightarrow> AuthVault list \<Rightarrow> string \<Rightarrow> string \<Rightarrow> string option
   \<Rightarrow> (error + uuid \<times> string) \<times> event list \<times> AuthVault list" where
  "offline_token_callback S env rows code' state error' =
     (if truthy error' then
        (Inl (KeycloakError (''Keycloak returned error: '' @ the error') 400), [], rows)
      else
      (let t1 = [ParseState state] in
       case parse_state_token (decode_jwt S) (secret_key S) (clock S) state of
        Inl e \<Rightarrow> (Inl e, t1, rows)
      | Inr state_payload \<Rightarrow>
      (let t2 = t1 @ [ExchangeCode code' (redirect_uri (keycloak S))] in
       case exchange_code_for_token (keycloak S) code' (redirect_uri (keycloak S)) of
        Inl e \<Rightarrow> (Inl e, t2, rows)
      | Inr token_response \<Rightarrow>
      (case guard_not_none_3 (refresh_token token_response)
              ''No refresh token received from Keycloak'' ''keycloak_error'' of
        Inl e \<Rightarrow> (Inl e, t2, rows)
      | Inr offline_token \<Rightarrow>
      (case UUID S (payload_user_id state_payload) of
        Inl e \<Rightarrow> (Inl e, t2, rows)
      | Inr user_id' \<Rightarrow>
      (let t3 = t2 @ [VaultStore user_id' OFFLINE] in
       case store_token (prims S) (encryption S) rows env user_id' offline_token OFFLINE
              (payload_session_state_id state_payload)
              (Some [(''scope'', json_of (scope token_response)),
                     (''token_type'', JString (token_type' token_response))]) of
        Inl e \<Rightarrow> (Inl e, t3, rows)
      | Inr (stored_entry, rows') \<Rightarrow>
          (Inr (id' stored_entry, payload_session_state_id state_payload), t3, rows')))))))"

section \<open>Offline renewal (app/api/v1/auth_manager/offline_token_id.py)\<close>


section \<open>Stand-ins for the libraries, for evaluating the model\<close>

text \<open>
  A toy block cipher (reversing the block, which is its own inverse on blocks of any
  length) and a toy digest. They stand in for the cipher library only where a statement
  is evaluated on concrete data; every general statement below is about any cipher.
\<close>

definition toy_primitives :: primitives where
  "toy_primitives =
     \<lparr>aes_encrypt = (\<lambda>k b. rev b), aes_decrypt = (\<lambda>k b. rev b), sha256 = (\<lambda>b. take 32 b)\<rparr>"

definition toy_encryption :: EncryptionService where
  "toy_encryption = \<lparr>key = replicate 32 7\<rparr>"

definition toy_iv :: string where
  "toy_iv = ''000102030405060708090a0b0c0d0e0f''"

section \<open>Sequences of upserts\<close>




section \<open>Example data\<close>

definition user_1 :: uuid where
  "user_1 = ''11111111-1111-4111-8111-111111111111''"

definition id_a :: uuid where
  "id_a = ''aaaaaaaa-aaaa-4aaa-8aaa-aaaaaaaaaaaa''"

definition id_b :: uuid where
  "id_b = ''bbbbbbbb-bbbb-4bbb-8bbb-bbbbbbbbbbbb''"


definition env_a :: fresh where
  "env_a = \<lparr>token_hex = toy_iv, uuid4 = id_a, now = 100\<rparr>"

definition env_b :: fresh where
  "env_b = \<lparr>token_hex = toy_iv, uuid4 = id_b, now = 200\<rparr>"


text \<open>The row that storing the refresh token \<^verbatim>\<open>rt-123\<close> for \<open>user_1\<close> creates in an empty
  table under the toy cipher, with the values of \<open>env_a\<close>.\<close>

definition refresh_row :: AuthVault where
  "refresh_row =
     \<lparr>id' = id_a, user_id = user_1, token_type = REFRESH,
      encrypted_token = Some ''05040706010003020d0c3636322f7572'', iv = Some toy_iv,
      token_hash = Some ''72742d313233'', metadata = None, session_state_id = ''sess-1'',
      created_at = 100, updated_at = None\<rparr>"

text \<open>
  Stand-ins for the remaining collaborators. The toy JWT decoder treats every token as
  issued at time 0 for 600 seconds: \<^verbatim>\<open>tampered\<close> fails the signature check, \<^verbatim>\<open>no-user\<close>
  carries no \<^verbatim>\<open>user_id\<close>, any other token carries both claims. The toy \<^verbatim>\<open>UUID\<close> accepts the
  texts of 36 characters. The toy provider answers every call with the given
  introspection result and token response.
\<close>

definition toy_jwt_decode :: jwt_decode where
  "toy_jwt_decode time token k =
     (if token = ''tampered'' then Inl (InvalidTokenError ''Signature verification failed'')
      else if 600 < time then Inl ExpiredSignatureError
      else if token = ''no-user'' then
        Inr [''session_state_id'' \<mapsto> JString ''sess-1'', ''exp'' \<mapsto> JInt 600,
             ''iat'' \<mapsto> JInt 0]
      else
        Inr [''user_id'' \<mapsto> JString user_1, ''session_state_id'' \<mapsto> JString ''sess-1'',
             ''exp'' \<mapsto> JInt 600, ''iat'' \<mapsto> JInt 0])"

definition toy_UUID :: "string \<Rightarrow> error + uuid" where
  "toy_UUID s =
     (if length s = 36 then Inr s else Inl (ValueError ''badly formed hexadecimal UUID string''))"

definition toy_response :: "string option \<Rightarrow> KeycloakTokenResponse" where
  "toy_response new_refresh_token =
     \<lparr>access_token = ''at-new'', refresh_token = new_refresh_token, expires_in = 300,
      refresh_expires_in = Some 1800, token_type' = ''Bearer'', id_token = None,
      scope = Some ''openid offline_access'', session_state' = ''sess-2''\<rparr>"

definition toy_services :: "TokenIntrospection \<Rightarrow> KeycloakTokenResponse \<Rightarrow> services" where
  "toy_services info response =
     \<lparr>keycloak =
        \<lparr>introspect_token = (\<lambda>t. Inr info),
         refresh_access_token = (\<lambda>t. Inr response),
         request_offline_token = (\<lambda>t. Inr response),
         exchange_code_for_token = (\<lambda>c r. Inr response),
         redirect_uri = ''https://app.example/callback''\<rparr>,
      prims = toy_primitives, encryption = toy_encryption, decode_jwt = toy_jwt_decode,
      secret_key = ''secret'', clock = 10, UUID = toy_UUID\<rparr>"

text \<open>The offline entry that storing \<^verbatim>\<open>rt-123\<close> as an offline token creates.\<close>

definition offline_row :: AuthVault where
  "offline_row = refresh_row\<lparr>token_type := OFFLINE\<rparr>"

text \<open>The second offline entry of \<open>user_1\<close>, stored later with the values of \<open>env_b\<close>.\<close>

definition second_offline_row :: AuthVault where
  "second_offline_row =
     \<lparr>id' = id_b, user_id = user_1, token_type = OFFLINE,
      encrypted_token = Some ''05040706010003020d0c3331372f7572'', iv = Some toy_iv,
      token_hash = Some ''72742d343536'', metadata = None, session_state_id = ''sess-1'',
      created_at = 200, updated_at = None\<rparr>"

section \<open>Blocks, padding, hexadecimal text and UTF-8\<close>

lemma div16: "unat (x::byte) div 16 < 16"
proof -
  have "unat x < 256" using unsigned_less[of x] by simp
  then show ?thesis by simp
qed

lemma chunks_Nil: "chunks n [] = []"
  by (subst chunks.simps) simp

lemma chunks_step: "0 < n \<Longrightarrow> xs \<noteq> [] \<Longrightarrow> chunks n xs = take n xs # chunks n (drop n xs)"
  by (subst chunks.simps) simp

lemma concat_chunks: "0 < n \<Longrightarrow> concat (chunks n xs) = xs"
proof (induction n xs rule: chunks.induct)
  case (1 n xs)
  show ?case
  proof (cases "xs = []")
    case True
    then show ?thesis by (simp add: chunks_Nil)
  next
    case False
    have eq: "chunks n xs = take n xs # chunks n (drop n xs)"
      by (rule chunks_step[OF "1.prems" False])
    show ?thesis unfolding eq using "1.IH" False "1.prems" by simp
  qed
qed

lemma chunks_length:
  "0 < n \<Longrightarrow> n dvd length xs \<Longrightarrow> \<forall>b\<in>set (chunks n xs). length b = n"
proof (induction n xs rule: chunks.induct)
  case (1 n xs)
  show ?case
  proof (cases "xs = []")
    case True
    then show ?thesis by (simp add: chunks_Nil)
  next
    case False
    have le: "n \<le> length xs"
      using "1.prems"(2) by (rule dvd_imp_le) (use False in simp)
    have "n dvd length xs - n"
      using "1.prems"(2) by (rule dvd_diff_nat) simp_all
    then have d: "n dvd length (drop n xs)"
      by simp
    have nz: "\<not> (n = 0 \<or> xs = [])"
      using False "1.prems"(1) by simp
    have r: "\<forall>b\<in>set (chunks n (drop n xs)). length b = n"
      by (rule "1.IH"[OF nz "1.prems"(1) d])
    have eq: "chunks n xs = take n xs # chunks n (drop n xs)"
      by (rule chunks_step[OF "1.prems"(1) False])
    have t: "length (take n xs) = n"
      using le by simp
    show ?thesis unfolding eq using r t by (metis set_ConsD)
  qed
qed

lemma chunks_concat:
  "0 < n \<Longrightarrow> \<forall>b\<in>set bs. length b = n \<Longrightarrow> chunks n (concat bs) = bs"
proof (induction bs)
  case Nil
  then show ?case by (simp add: chunks_Nil)
next
  case (Cons b bs)
  then have b: "length b = n" "b @ concat bs \<noteq> []" by auto
  have "chunks n (b @ concat bs) = take n (b @ concat bs) # chunks n (drop n (b @ concat bs))"
    by (rule chunks_step[OF Cons.prems(1) b(2)])
  with Cons b(1) show ?case by simp
qed

lemma xor_bytes_cancel:
  "length a = length b \<Longrightarrow> xor_bytes (xor_bytes a b) b = a"
  unfolding xor_bytes_def
proof (induction a b rule: list_induct2)
  case Nil
  then show ?case by simp
next
  case (Cons x xs y ys)
  then show ?case by (simp add: xor.assoc)
qed

lemma length_xor_bytes: "length (xor_bytes a b) = min (length a) (length b)"
  by (simp add: xor_bytes_def)

lemma cbc_enc_length:
  "\<forall>b. length b = 16 \<longrightarrow> length (E b) = 16 \<Longrightarrow> length prev = 16 \<Longrightarrow>
   \<forall>b\<in>set bs. length b = 16 \<Longrightarrow> \<forall>c\<in>set (cbc_enc E prev bs). length c = 16"
proof (induction bs arbitrary: prev)
  case Nil
  then show ?case by simp
next
  case (Cons a bs)
  then have l: "length (E (xor_bytes a prev)) = 16"
    by (simp add: length_xor_bytes)
  with Cons show ?case by (simp add: Let_def)
qed

lemma cbc_dec_enc:
  "\<forall>b. length b = 16 \<longrightarrow> length (E b) = 16 \<and> D (E b) = b \<Longrightarrow> length prev = 16 \<Longrightarrow>
   \<forall>b\<in>set bs. length b = 16 \<Longrightarrow> cbc_dec D prev (cbc_enc E prev bs) = bs"
  by (induction bs arbitrary: prev) (simp_all add: Let_def length_xor_bytes xor_bytes_cancel)

lemma length_pad: "length (pad data) mod 16 = 0"
  by (simp add: pad_def Let_def) presburger

lemma unpad_loop_replicate:
  "\<forall>i\<in>set is. i < p \<Longrightarrow> unat (of_nat p :: byte) = p \<Longrightarrow>
   unpad_loop (data @ replicate p (of_nat p)) p is = None"
  by (induction "is") (auto simp: nth_append)

lemma unpad_pad: "unpad (pad data) = Inr data"
proof -
  define p where "p = 16 - length data mod 16"
  have p: "0 < p" "p \<le> 16" by (simp_all add: p_def)
  then have u: "unat (of_nat p :: byte) = p" by (simp add: unat_of_nat)
  have l: "unat (last (data @ replicate p (of_nat p :: byte))) = p"
    using p u by (cases p) simp_all
  have "unpad_loop (data @ replicate p (of_nat p)) p [0..<p] = None"
    using u by (intro unpad_loop_replicate) auto
  with p l show ?thesis
    by (simp add: unpad_def pad_def Let_def p_def[symmetric])
qed



lemma digitvalue_hexdigit: "n < 16 \<Longrightarrow> digitvalue (hexdigit n) = Some n"
  by (auto simp: digitvalue_def hexdigit_def Let_def)

lemma hexdigit_not_space: "n < 16 \<Longrightarrow> \<not> Py_ISSPACE (hexdigit n)"
  by (auto simp: Py_ISSPACE_def hexdigit_def)

lemma fromhex_hex: "fromhex (hex b) = Inr b"
  by (induction b) (simp_all add: hex_def digitvalue_hexdigit hexdigit_not_space div16)

lemma unat_byte_char: "unat (of_nat (of_char c) :: byte) = of_char c"
  by (simp add: unat_of_nat)

lemma decode_encode: "is_str s \<Longrightarrow> decode (encode s) = Inr s"
  by (simp add: decode_def encode_def is_str_def comp_def unat_byte_char map_idI)

lemma length_cbc_dec:
  "\<forall>b. length b = 16 \<longrightarrow> length (D b) = 16 \<Longrightarrow> length prev = 16 \<Longrightarrow>
   \<forall>b\<in>set cs. length b = 16 \<Longrightarrow> length (concat (cbc_dec D prev cs)) = length (concat cs)"
  by (induction cs arbitrary: prev) (simp_all add: length_xor_bytes)

lemma blocks_length_mod: "\<forall>c\<in>set cs. length c = 16 \<Longrightarrow> length (concat cs) mod 16 = 0"
  by (induction cs) simp_all

lemma cipher_roundtrip:
  assumes E: "\<forall>b. length b = 16 \<longrightarrow>
      length (aes_encrypt P k b) = 16 \<and> aes_decrypt P k (aes_encrypt P k b) = b"
    and k: "length k = 32" and iv: "length iv_bytes = 16" and d: "length data mod 16 = 0"
  shows "\<exists>c. cipher_encrypt P k iv_bytes data = Inr c \<and> cipher_decrypt P k iv_bytes c = Inr data"
proof -
  let ?bs = "chunks 16 data"
  let ?cs = "cbc_enc (aes_encrypt P k) iv_bytes ?bs"
  have bl: "\<forall>b\<in>set ?bs. length b = 16"
    using d by (intro chunks_length) (auto simp: dvd_eq_mod_eq_0)
  have E': "\<forall>b. length b = 16 \<longrightarrow> length (aes_encrypt P k b) = 16" using E by blast
  have cl: "\<forall>c\<in>set ?cs. length c = 16"
    by (rule cbc_enc_length[OF E' iv bl])
  have ch: "chunks 16 (concat ?cs) = ?cs"
    using cl by (intro chunks_concat) auto
  have lc: "length (concat ?cs) mod 16 = 0"
    using cl by (rule blocks_length_mod)
  have rt: "cbc_dec (aes_decrypt P k) iv_bytes ?cs = ?bs"
    by (rule cbc_dec_enc[OF E iv bl])
  have cc: "concat ?bs = data" by (rule concat_chunks) simp
  show ?thesis
    using k iv d lc ch rt cc by (simp add: cipher_encrypt_def cipher_decrypt_def)
qed


lemma fromhex_toy_iv: "fromhex toy_iv = Inr [0, 1, 2, 3, 4, 5, 6, 7, 8, 9, 10, 11, 12, 13, 14, 15]"
  by (simp add: toy_iv_def digitvalue_def Py_ISSPACE_def)

lemma toy_cipher_inverse:
  "\<forall>b. length b = 16 \<longrightarrow>
     length (aes_encrypt toy_primitives (key toy_encryption) b) = 16
     \<and> aes_decrypt toy_primitives (key toy_encryption)
          (aes_encrypt toy_primitives (key toy_encryption) b) = b"
  by (simp add: toy_primitives_def)

lemma toy_cipher_length:
  "\<forall>b. length b = 16 \<longrightarrow> length (aes_decrypt toy_primitives (key toy_encryption) b) = 16"
  by (simp add: toy_primitives_def)

lemma toy_key_length: "length (key toy_encryption) = 32"
  by (simp add: toy_encryption_def)

lemma unpad_loop_mismatch:
  "\<forall>i\<in>set is. i < length data \<Longrightarrow>
   \<exists>i\<in>set is. unat (data ! (length data - (i + 1))) \<noteq> p \<Longrightarrow>
   unpad_loop data p is = Some (ValueError ''Invalid padding bytes'')"
  by (induction "is") auto

lemma cipher_decrypt_length:
  assumes "\<forall>b. length b = 16 \<longrightarrow> length (aes_decrypt P k b) = 16"
    and "cipher_decrypt P k iv_bytes data = Inr d"
  shows "length d = length data \<and> length data mod 16 = 0"
proof -
  from assms(2) have iv: "length iv_bytes = 16" and m: "length data mod 16 = 0"
    and d: "d = concat (cbc_dec (aes_decrypt P k) iv_bytes (chunks 16 data))"
    by (auto simp: cipher_decrypt_def split: if_splits)
  have bl: "\<forall>b\<in>set (chunks 16 data). length b = 16"
    using m by (intro chunks_length) (auto simp: dvd_eq_mod_eq_0)
  have "length d = length (concat (chunks 16 data))"
    unfolding d by (rule length_cbc_dec[OF assms(1) iv bl])
  also have "concat (chunks 16 data) = data" by (rule concat_chunks) simp
  finally show ?thesis using m by simp
qed

section \<open>C1: encryption round trip\<close>

text \<open>
  Claim C1. For every plaintext string \<open>p\<close> and every valid 16-byte IV, decrypting the
  result of encrypting \<open>p\<close> with that IV under the same 32-byte key returns \<open>p\<close>
  exactly: encryption succeeds with some ciphertext \<open>c\<close>, and decryption of \<open>c\<close> returns
  \<open>p\<close>. The block cipher is any function on 16-byte blocks whose decryption inverts its
  encryption, as AES does; the plaintext is any string of well-formed UTF-8 text, of any
  length (empty, one byte, several blocks).
\<close>

theorem encrypt_decrypt_round_trip:
  assumes "\<forall>b. length b = 16 \<longrightarrow>
      length (aes_encrypt P (key self) b) = 16
      \<and> aes_decrypt P (key self) (aes_encrypt P (key self) b) = b"
    and "length (key self) = 32"
    and "fromhex iv_hex = Inr iv_bytes" and "length iv_bytes = 16"
    and "is_str p"
  shows "\<exists>c. encrypt_token P self p iv_hex = Inr c \<and> decrypt_token P self c iv_hex = Inr p"
proof -
  obtain c where c: "cipher_encrypt P (key self) iv_bytes (pad (encode p)) = Inr c"
      "cipher_decrypt P (key self) iv_bytes c = Inr (pad (encode p))"
    using cipher_roundtrip[OF assms(1,2,4) length_pad] by blast
  have "encrypt_token P self p iv_hex = Inr (hex c)"
    using assms(3,4) c(1) by (simp add: encrypt_token_def)
  moreover have "decrypt_token P self (hex c) iv_hex = Inr p"
    using assms(3,4,5) c(2)
    by (simp add: decrypt_token_def fromhex_hex unpad_pad decode_encode)
  ultimately show ?thesis by blast
qed

theorem encrypt_decrypt_round_trip_witness:
  "(\<exists>c. encrypt_token toy_primitives toy_encryption [] toy_iv = Inr c
      \<and> decrypt_token toy_primitives toy_encryption c toy_iv = Inr [])
   \<and> (\<exists>c. encrypt_token toy_primitives toy_encryption ''x'' toy_iv = Inr c
      \<and> decrypt_token toy_primitives toy_encryption c toy_iv = Inr ''x'')
   \<and> (\<exists>c. encrypt_token toy_primitives toy_encryption
            ''0123456789abcdef0123456789abcdef-rt'' toy_iv = Inr c
      \<and> decrypt_token toy_primitives toy_encryption c toy_iv
          = Inr ''0123456789abcdef0123456789abcdef-rt'')"
proof -
  have l: "length [0, 1, 2, 3, 4, 5, 6, 7, 8, 9, 10, 11, 12, 13, 14, 15 :: byte] = 16"
    by simp
  have s1: "is_str []" and s2: "is_str ''x''"
    and s3: "is_str ''0123456789abcdef0123456789abcdef-rt''"
    by (simp_all add: is_str_def)
  show ?thesis
    using encrypt_decrypt_round_trip
            [OF toy_cipher_inverse toy_key_length fromhex_toy_iv l s1]
      encrypt_decrypt_round_trip
            [OF toy_cipher_inverse toy_key_length fromhex_toy_iv l s2]
      encrypt_decrypt_round_trip
            [OF toy_cipher_inverse toy_key_length fromhex_toy_iv l s3]
    by blast
qed

section \<open>C6: invalid padding is rejected\<close>

text \<open>
  Claim C6. When the bytes obtained by decrypting a ciphertext end in a byte that is 0
  or greater than 16, or when the trailing bytes it announces are not all equal to it,
  \<^verbatim>\<open>decrypt_token\<close> fails with a \<^verbatim>\<open>ValueError\<close> for invalid padding (length or bytes); it
  returns no plaintext for such input.
\<close>

theorem decrypt_rejects_invalid_padding:
  assumes "\<forall>b. length b = 16 \<longrightarrow> length (aes_decrypt P (key self) b) = 16"
    and "fromhex iv_hex = Inr iv_bytes" and "fromhex encrypted_hex = Inr encrypted_bytes"
    and "cipher_decrypt P (key self) iv_bytes encrypted_bytes = Inr decrypted"
    and "decrypted \<noteq> []"
    and "unat (last decrypted) = 0 \<or> unat (last decrypted) > 16
         \<or> (\<exists>i < unat (last decrypted).
               decrypted ! (length decrypted - (i + 1)) \<noteq> last decrypted)"
  shows "decrypt_token P self encrypted_hex iv_hex = Inl (ValueError ''Invalid padding length'')
         \<or> decrypt_token P self encrypted_hex iv_hex = Inl (ValueError ''Invalid padding bytes'')"
proof -
  have iv: "length iv_bytes = 16"
    using assms(4) by (auto simp: cipher_decrypt_def split: if_splits)
  have len: "length decrypted mod 16 = 0"
    using cipher_decrypt_length[OF assms(1,4)] by simp
  with assms(5) have ge: "16 \<le> length decrypted"
    by (cases decrypted) (auto simp: mod_eq_0_iff_dvd dest: dvd_imp_le)
  have "unpad decrypted = Inl (ValueError ''Invalid padding length'')
        \<or> unpad decrypted = Inl (ValueError ''Invalid padding bytes'')"
  proof (cases "unat (last decrypted) = 0 \<or> unat (last decrypted) > 16")
    case True
    with assms(5) show ?thesis by (auto simp: unpad_def Let_def)
  next
    case False
    with assms(6) obtain i where i: "i < unat (last decrypted)"
        "decrypted ! (length decrypted - (i + 1)) \<noteq> last decrypted"
      by blast
    have a: "\<forall>j\<in>set [0..<unat (last decrypted)]. j < length decrypted"
      using False ge by auto
    have b: "\<exists>j\<in>set [0..<unat (last decrypted)].
          unat (decrypted ! (length decrypted - (j + 1))) \<noteq> unat (last decrypted)"
      using i by (intro bexI[of _ i]) (auto simp: word_unat_eq_iff)
    have "unpad_loop decrypted (unat (last decrypted)) [0..<unat (last decrypted)]
          = Some (ValueError ''Invalid padding bytes'')"
      by (rule unpad_loop_mismatch[OF a b])
    with False assms(5) show ?thesis by (simp add: unpad_def Let_def)
  qed
  then show ?thesis
    using assms(2,3,4) iv by (auto simp: decrypt_token_def)
qed

theorem decrypt_rejects_invalid_padding_witness:
  "decrypt_token toy_primitives toy_encryption ''0d070f0f0f0f0f0f0f0f0f0f0f0f0f0f'' toy_iv
     = Inl (ValueError ''Invalid padding length'')
   \<or> decrypt_token toy_primitives toy_encryption ''0d070f0f0f0f0f0f0f0f0f0f0f0f0f0f'' toy_iv
     = Inl (ValueError ''Invalid padding bytes'')"
proof -
  let ?d = "[15, 14, 13, 12, 11, 10, 9, 8, 7, 6, 5, 4, 3, 2, 9, 2 :: byte]"
  have c: "fromhex ''0d070f0f0f0f0f0f0f0f0f0f0f0f0f0f''
      = Inr [13, 7, 15, 15, 15, 15, 15, 15, 15, 15, 15, 15, 15, 15, 15, 15]"
    by (simp add: digitvalue_def Py_ISSPACE_def)
  have d: "cipher_decrypt toy_primitives (key toy_encryption)
      [0, 1, 2, 3, 4, 5, 6, 7, 8, 9, 10, 11, 12, 13, 14, 15]
      [13, 7, 15, 15, 15, 15, 15, 15, 15, 15, 15, 15, 15, 15, 15, 15] = Inr ?d"
    by code_simp
  have e: "?d \<noteq> []"
    by simp
  have f: "unat (last ?d) = 0 \<or> unat (last ?d) > 16
     \<or> (\<exists>i < unat (last ?d). ?d ! (length ?d - (i + 1)) \<noteq> last ?d)"
    by (intro disjI2 exI[of _ 1]) simp
  show ?thesis
    by (rule decrypt_rejects_invalid_padding
               [OF toy_cipher_length fromhex_toy_iv c d e f])
qed


section \<open>The vault: lookups\<close>








section \<open>C2: an entry without ciphertext at \<^verbatim>\<open>retrieve_and_decrypt\<close>\<close>




section \<open>C10: the lookups by user and by session hide a missing ciphertext\<close>



section \<open>C7: several entries matching \<^verbatim>\<open>get_by_user_id\<close>\<close>

text \<open>
  Claim C7 says that \<^verbatim>\<open>get_by_user_id\<close> returns the newest matching entry even when
  several entries match. The repository orders the matches by creation time, newest
  first, and then calls \<^verbatim>\<open>scalar_one_or_none\<close>, which raises when the result has more than
  one row. Evaluated: two offline tokens are stored for one user, the second later than
  the first; the lookup by user and type then raises \<^verbatim>\<open>MultipleResultsFound\<close>, in the
  repository and in the service.
\<close>

theorem get_by_user_id_several_matches:
  "(case store_token toy_primitives toy_encryption [] env_a user_1 ''rt-123'' OFFLINE
           ''sess-1'' None of
      Inl e \<Rightarrow> False
    | Inr (first_entry, rows1) \<Rightarrow>
        (case store_token toy_primitives toy_encryption rows1 env_b user_1 ''rt-456'' OFFLINE
                ''sess-1'' None of
           Inl e \<Rightarrow> False
         | Inr (second_entry, rows2) \<Rightarrow>
             created_at first_entry < created_at second_entry
             \<and> get_by_user_id rows2 user_1 (Some OFFLINE) = Inl MultipleResultsFound
             \<and> get_by_user_id_svc toy_primitives toy_encryption rows2 user_1 (Some OFFLINE)
                 = Inl MultipleResultsFound))"
  by code_simp

theorem get_by_user_id_several_matches_witness:
  "get_by_user_id_svc toy_primitives toy_encryption [offline_row, second_offline_row] user_1
     (Some OFFLINE) = Inl MultipleResultsFound"
proof -
  have a: "store_token toy_primitives toy_encryption [] env_a user_1 ''rt-123'' OFFLINE
      ''sess-1'' None = Inr (offline_row, [offline_row])"
    by code_simp
  have b: "store_token toy_primitives toy_encryption [offline_row] env_b user_1 ''rt-456''
      OFFLINE ''sess-1'' None = Inr (second_offline_row, [offline_row, second_offline_row])"
    by code_simp
  show ?thesis
    using get_by_user_id_several_matches by (simp add: a b)
qed

section \<open>The vault: upsert\<close>




















section \<open>C3: one refresh entry per user\<close>




section \<open>C4: the errors of \<^verbatim>\<open>parse_state_token\<close>\<close>

text \<open>
  Claim C4 says that parsing a state token fails with three distinct error kinds
  (expired, invalid, missing claim). The three handlers of \<^verbatim>\<open>parse_state_token\<close> all raise
  \<^verbatim>\<open>InvalidStateTokenError\<close>, as its docstring announces: an expired token, a token with a
  bad signature and a token without \<^verbatim>\<open>user_id\<close> give the same exception class, with the
  same code.
\<close>

theorem parse_state_token_kinds_counterexample:
  "parse_state_token toy_jwt_decode ''secret'' 601 ''state''
     = Inl (InvalidStateTokenError ''State token has expired'')
   \<and> parse_state_token toy_jwt_decode ''secret'' 10 ''tampered''
     = Inl (InvalidStateTokenError ''Invalid state token: Signature verification failed'')
   \<and> parse_state_token toy_jwt_decode ''secret'' 10 ''no-user''
     = Inl (InvalidStateTokenError
         (''Missing required field in state token: '' @ str_KeyError ''user_id''))
   \<and> code (InvalidStateTokenError ''State token has expired'')
     = code (InvalidStateTokenError ''Invalid state token: Signature verification failed'')
   \<and> code (InvalidStateTokenError ''State token has expired'')
     = code (InvalidStateTokenError
         (''Missing required field in state token: '' @ str_KeyError ''user_id''))"
  by (simp add: parse_state_token_def toy_jwt_decode_def)

text \<open>
  Claim C4, amended. Parsing a state token fails with the single error kind
  \<^verbatim>\<open>InvalidStateTokenError\<close> when the decoder reports the token expired, when it reports a
  bad signature or a malformed token, and when \<^verbatim>\<open>user_id\<close> or \<^verbatim>\<open>session_state_id\<close> is absent
  from the payload; the three cases differ by their message only. A token that the
  decoder accepts (valid signature, within its TTL) and whose payload carries both claims
  as strings is parsed successfully, returning the embedded \<^verbatim>\<open>user_id\<close> and
  \<^verbatim>\<open>session_state_id\<close>.
\<close>

theorem parse_state_token_single_kind:
  "(dec time token k = Inl ExpiredSignatureError \<longrightarrow>
      parse_state_token dec k time token
        = Inl (InvalidStateTokenError ''State token has expired''))
   \<and> (dec time token k = Inl (InvalidTokenError m) \<longrightarrow>
      parse_state_token dec k time token
        = Inl (InvalidStateTokenError (''Invalid state token: '' @ m)))
   \<and> (dec time token k = Inr payload \<and> payload ''user_id'' = None \<longrightarrow>
      parse_state_token dec k time token
        = Inl (InvalidStateTokenError
            (''Missing required field in state token: '' @ str_KeyError ''user_id'')))
   \<and> (dec time token k = Inr payload \<and> payload ''user_id'' = Some v
        \<and> payload ''session_state_id'' = None \<longrightarrow>
      parse_state_token dec k time token
        = Inl (InvalidStateTokenError
            (''Missing required field in state token: ''
             @ str_KeyError ''session_state_id'')))
   \<and> (dec time token k = Inr payload \<and> payload ''user_id'' = Some (JString u)
        \<and> payload ''session_state_id'' = Some (JString s) \<longrightarrow>
      parse_state_token dec k time token = Inr (StateTokenPayload u s))"
  by (simp add: parse_state_token_def)

theorem parse_state_token_single_kind_witness:
  "parse_state_token toy_jwt_decode ''secret'' 601 ''state''
     = Inl (InvalidStateTokenError ''State token has expired'')
   \<and> parse_state_token toy_jwt_decode ''secret'' 10 ''tampered''
     = Inl (InvalidStateTokenError
         (''Invalid state token: '' @ ''Signature verification failed''))
   \<and> parse_state_token toy_jwt_decode ''secret'' 10 ''no-user''
     = Inl (InvalidStateTokenError
         (''Missing required field in state token: '' @ str_KeyError ''user_id''))
   \<and> parse_state_token (\<lambda>time token k. Inr [''user_id'' \<mapsto> JString user_1])
         ''secret'' 10 ''state''
     = Inl (InvalidStateTokenError
         (''Missing required field in state token: '' @ str_KeyError ''session_state_id''))
   \<and> parse_state_token toy_jwt_decode ''secret'' 10 ''state''
     = Inr (StateTokenPayload user_1 ''sess-1'')"
proof -
  have a: "toy_jwt_decode 601 ''state'' ''secret'' = Inl ExpiredSignatureError"
    by (simp add: toy_jwt_decode_def)
  have b: "toy_jwt_decode 10 ''tampered'' ''secret''
      = Inl (InvalidTokenError ''Signature verification failed'')"
    by (simp add: toy_jwt_decode_def)
  have c: "toy_jwt_decode 10 ''no-user'' ''secret''
      = Inr [''session_state_id'' \<mapsto> JString ''sess-1'', ''exp'' \<mapsto> JInt 600,
             ''iat'' \<mapsto> JInt 0]
     \<and> [''session_state_id'' \<mapsto> JString ''sess-1'', ''exp'' \<mapsto> JInt 600,
             ''iat'' \<mapsto> JInt 0] ''user_id'' = None"
    by (simp add: toy_jwt_decode_def)
  have d: "(\<lambda>time token k. Inr [''user_id'' \<mapsto> JString user_1]) 10 ''state'' ''secret''
      = (Inr [''user_id'' \<mapsto> JString user_1] :: jwt_error + (string \<rightharpoonup> json))
     \<and> [''user_id'' \<mapsto> JString user_1] ''user_id'' = Some (JString user_1)
     \<and> [''user_id'' \<mapsto> JString user_1] ''session_state_id'' = None"
    by simp
  have e: "toy_jwt_decode 10 ''state'' ''secret''
      = Inr [''user_id'' \<mapsto> JString user_1, ''session_state_id'' \<mapsto> JString ''sess-1'',
             ''exp'' \<mapsto> JInt 600, ''iat'' \<mapsto> JInt 0]
     \<and> [''user_id'' \<mapsto> JString user_1, ''session_state_id'' \<mapsto> JString ''sess-1'',
             ''exp'' \<mapsto> JInt 600, ''iat'' \<mapsto> JInt 0] ''user_id'' = Some (JString user_1)
     \<and> [''user_id'' \<mapsto> JString user_1, ''session_state_id'' \<mapsto> JString ''sess-1'',
             ''exp'' \<mapsto> JInt 600, ''iat'' \<mapsto> JInt 0] ''session_state_id''
         = Some (JString ''sess-1'')"
    by (simp add: toy_jwt_decode_def)
  note T = parse_state_token_single_kind
  have 1: "parse_state_token toy_jwt_decode ''secret'' 601 ''state''
     = Inl (InvalidStateTokenError ''State token has expired'')"
    by (rule T[THEN conjunct1, THEN mp]) (rule a)
  have 2: "parse_state_token toy_jwt_decode ''secret'' 10 ''tampered''
     = Inl (InvalidStateTokenError
         (''Invalid state token: '' @ ''Signature verification failed''))"
    by (rule T[THEN conjunct2, THEN conjunct1, THEN mp]) (rule b)
  have 3: "parse_state_token toy_jwt_decode ''secret'' 10 ''no-user''
     = Inl (InvalidStateTokenError
         (''Missing required field in state token: '' @ str_KeyError ''user_id''))"
    by (rule T[THEN conjunct2, THEN conjunct2, THEN conjunct1, THEN mp]) (rule c)
  have 4: "parse_state_token (\<lambda>time token k. Inr [''user_id'' \<mapsto> JString user_1])
         ''secret'' 10 ''state''
     = Inl (InvalidStateTokenError
         (''Missing required field in state token: '' @ str_KeyError ''session_state_id''))"
    by (rule T[THEN conjunct2, THEN conjunct2, THEN conjunct2, THEN conjunct1, THEN mp])
       (rule d)
  have 5: "parse_state_token toy_jwt_decode ''secret'' 10 ''state''
     = Inr (StateTokenPayload user_1 ''sess-1'')"
    by (rule T[THEN conjunct2, THEN conjunct2, THEN conjunct2, THEN conjunct2, THEN mp])
       (rule e)
  from 1 2 3 4 5 show ?thesis by (intro conjI)
qed

section \<open>C5: validation at the start of the refresh rotation\<close>



section \<open>C8: the offline callback\<close>

text \<open>
  Claim C8 says that the offline callback, after the code exchange, fails with a provider
  error when the response lacks a refresh token and otherwise stores the token as an
  offline entry and returns the new id. The endpoint calls \<^verbatim>\<open>guard_not_none\<close> with three
  positional arguments, one more than the guard takes. Evaluated: whether or not the
  response carries a refresh token, the endpoint raises \<^verbatim>\<open>TypeError\<close> after the exchange
  and the table stays empty; with the \<^verbatim>\<open>error\<close> parameter present it fails with
  \<^verbatim>\<open>KeycloakError\<close> before any other call, as the claim says.
\<close>

theorem offline_callback_never_stores:
  "offline_token_callback
     (toy_services \<lparr>active = True, sub = Some user_1, session_state = Some ''sess-1''\<rparr>
        (toy_response (Some ''rt-new''))) env_a [] ''code-1'' ''state'' None
     = (Inl (TypeError ''guard_not_none() takes 2 positional arguments but 3 were given''),
        [ParseState ''state'', ExchangeCode ''code-1'' ''https://app.example/callback''], [])
   \<and> offline_token_callback
     (toy_services \<lparr>active = True, sub = Some user_1, session_state = Some ''sess-1''\<rparr>
        (toy_response None)) env_a [] ''code-1'' ''state'' None
     = (Inl (TypeError ''guard_not_none() takes 2 positional arguments but 3 were given''),
        [ParseState ''state'', ExchangeCode ''code-1'' ''https://app.example/callback''], [])
   \<and> offline_token_callback
     (toy_services \<lparr>active = True, sub = Some user_1, session_state = Some ''sess-1''\<rparr>
        (toy_response (Some ''rt-new''))) env_a [] ''code-1'' ''state'' (Some ''access_denied'')
     = (Inl (KeycloakError ''Keycloak returned error: access_denied'' 400), [], [])"
  by code_simp

theorem offline_callback_never_stores_witness:
  "snd (snd (offline_token_callback
     (toy_services \<lparr>active = True, sub = Some user_1, session_state = Some ''sess-1''\<rparr>
        (toy_response (Some ''rt-new''))) env_a [] ''code-1'' ''state'' None)) = []"
  using offline_callback_never_stores by simp

section \<open>C9: the offline renewal\<close>




end
